theory Spec2Isabelle
  imports Complex_Main
begin

section \<open>PSUP harvesting and the OMEGA cube transformer\<close>

text \<open>
  A shallow embedding of \<^verbatim>\<open>labtools/ias/psup.py\<close> and of
  \<^verbatim>\<open>labtools/ias/transformers/omega_cube.py\<close>. Exceptions are values
  of the type \<open>error\<close>, a function that can raise returns \<open>error + 'a\<close>, and
  the file system, the network and the standard output are fields of an explicit
  \<open>world\<close> that every effectful function takes and returns.
\<close>

subsection \<open>Bounding box\<close>

text \<open>
  Python floats are modelled by the reals: the arithmetic below is exact, rounding is
  not part of the model. A numeric field of a metadata record holds an \<open>int\<close> or a
  \<open>float\<close>; \<open>float_py\<close> is Python's \<^verbatim>\<open>float(x)\<close> on it.
\<close>

datatype pynum = PInt int | PFloat real

fun float_py :: "pynum \<Rightarrow> real" where
  "float_py (PInt i) = of_int i"
| "float_py (PFloat r) = r"

text \<open>
  Python's \<^verbatim>\<open>x % y\<close> on floats, for a divisor other than zero: the result
  has the sign of the divisor, \<open>x - y * floor (x / y)\<close>. The only divisor in the
  source is \<^verbatim>\<open>360.0\<close>.
\<close>

definition py_mod :: "real \<Rightarrow> real \<Rightarrow> real" where
  "py_mod x y = x - y * of_int \<lfloor>x / y\<rfloor>"

text \<open>
  The fields of \<^verbatim>\<open>OMEGA_Cube_Record\<close> that the transformer reads. The
  schema class itself is not part of the sources at hand.
\<close>

record OMEGA_Cube_Record =
  download_nc :: string
  download_sav :: string
  westernmost_longitude :: pynum
  easternmost_longitude :: pynum
  minimum_latitude :: pynum
  maximum_latitude :: pynum

text \<open>
  The expression \<^verbatim>\<open>(float(lon) + 180.0) % 360.0 - 180.0\<close>, which
  \<^verbatim>\<open>get_bbox\<close> writes out once for each of the two longitudes.
\<close>

definition normalize_longitude :: "real \<Rightarrow> real" where
  "normalize_longitude lon = py_mod (lon + 180) 360 - 180"

definition get_bbox :: "OMEGA_Cube_Record \<Rightarrow> real list" where
  "get_bbox metadata =
     [ normalize_longitude (float_py (westernmost_longitude metadata)),
       float_py (minimum_latitude metadata),
       normalize_longitude (float_py (easternmost_longitude metadata)),
       float_py (maximum_latitude metadata) ]"

subsection \<open>Values, exceptions, paths\<close>

text \<open>
  A value as \<^verbatim>\<open>json.load\<close> and \<^verbatim>\<open>Response.json\<close> return it. A
  Python \<^verbatim>\<open>dict\<close> keeps its keys in insertion order, so an object is an
  association list; \<open>map_of\<close> is the lookup.
\<close>

datatype json =
    JNull
  | JBool bool
  | JNum pynum
  | JStr string
  | JList "json list"
  | JObj "(string \<times> json) list"

text \<open>
  The exceptions of the two modules. \<open>Exception msg\<close> is
  \<^verbatim>\<open>raise Exception(msg)\<close>; \<open>UnboundLocalError v\<close> is raised by reading
  the local variable \<open>v\<close> before any assignment to it; \<open>External msg\<close> is an
  exception raised inside a collaborator that is not part of these sources (the schema
  factory, the NetCDF reader). All of them are subclasses of
  \<^verbatim>\<open>Exception\<close>, so \<^verbatim>\<open>except Exception\<close> catches each one.
\<close>

datatype error =
    Exception string
  | InvalidModelObjectTypeError string
  | UnboundLocalError string
  | AttributeError
  | TypeError
  | ConnectionError
  | JSONDecodeError
  | FileNotFoundError
  | FileExistsError
  | IsADirectoryError
  | NotADirectoryError
  | External string

text \<open>
  \<^verbatim>\<open>str.split(sep)\<close> for a separator of one character: the result is
  never empty.
\<close>

fun split_on :: "char \<Rightarrow> string \<Rightarrow> string list" where
  "split_on sep [] = [[]]"
| "split_on sep (c # cs) =
     (if c = sep then [] # split_on sep cs
      else (case split_on sep cs of
              [] \<Rightarrow> [[c]]
            | s # ss \<Rightarrow> (c # s) # ss))"

text \<open>
  A \<^verbatim>\<open>pathlib\<close> path: whether it starts at the root, and its segments.
  Parsing drops empty segments and \<^verbatim>\<open>.\<close> segments, as
  \<^verbatim>\<open>PurePosixPath\<close> does.
\<close>

datatype path = Path (is_absolute: bool) (parts: "string list")

definition path_of_string :: "string \<Rightarrow> path" where
  "path_of_string s =
     Path (s \<noteq> [] \<and> hd s = CHR ''/'')
          (filter (\<lambda>seg. seg \<noteq> [] \<and> seg \<noteq> ''.'') (split_on (CHR ''/'') s))"

text \<open>\<^verbatim>\<open>p / s\<close> for a string \<open>s\<close>: an absolute \<open>s\<close> replaces \<open>p\<close>.\<close>

definition joinpath :: "path \<Rightarrow> string \<Rightarrow> path" where
  "joinpath p s =
     (if is_absolute (path_of_string s) then path_of_string s
      else Path (is_absolute p) (parts p @ parts (path_of_string s)))"

definition name :: "path \<Rightarrow> string" where
  "name p = (if parts p = [] then [] else last (parts p))"

definition parent :: "path \<Rightarrow> path" where
  "parent p = Path (is_absolute p) (butlast (parts p))"

text \<open>
  \<^verbatim>\<open>stem\<close>: the final segment without its last suffix. With \<open>i\<close> the
  index of the last dot of the name, the suffix is cut when
  \<^verbatim>\<open>0 < i < len(name) - 1\<close>.
\<close>

definition stem :: "path \<Rightarrow> string" where
  "stem p =
     (let n = name p;
          after = takeWhile (\<lambda>c. c \<noteq> CHR ''.'') (rev n)
      in if CHR ''.'' \<in> set n \<and> after \<noteq> [] \<and> Suc (length after) < length n
         then take (length n - Suc (length after)) n
         else n)"

subsection \<open>The world: files, network, standard output\<close>

datatype node = Dir | JsonFile json | DataFile string

text \<open>
  A reply to \<^verbatim>\<open>requests.get\<close>: the call itself raises
  (\<open>ConnectionFailed\<close>), or it returns a response with its \<^verbatim>\<open>ok\<close> flag
  and its body, \<open>None\<close> when the body is not JSON.
\<close>

datatype reply = ConnectionFailed | Response bool "json option"

text \<open>
  What one \<^verbatim>\<open>print\<close> call writes is a list of pieces: literal text, the
  text of a value, of a path (\<open>PStr\<close> for \<^verbatim>\<open>str\<close>, \<open>PRepr\<close> for
  \<^verbatim>\<open>repr\<close>) or of an exception. The \<^verbatim>\<open>end=''\<close> of the
  progress line is not recorded.
\<close>

datatype piece = S string | V json | PStr path | PRepr path | E error

text \<open>
  \<open>fs\<close> maps every existing path to what is there; \<open>service\<close> is the remote
  catalog, which answers a GET from its position in the sequence of requests, the URL
  and the \<^verbatim>\<open>limit\<close> parameter; \<open>requests\<close> lists the GETs issued so
  far and \<open>stdout\<close> the \<^verbatim>\<open>print\<close> calls, both oldest first.
\<close>

record world =
  fs :: "path \<Rightarrow> node option"
  service :: "nat \<Rightarrow> string \<Rightarrow> json \<Rightarrow> reply"
  requests :: "(string \<times> json) list"
  stdout :: "piece list list"

definition print :: "piece list \<Rightarrow> world \<Rightarrow> world" where
  "print line w = w \<lparr> stdout := stdout w @ [line] \<rparr>"

text \<open>The current directory and the root always exist.\<close>

definition exists :: "world \<Rightarrow> path \<Rightarrow> bool" where
  "exists w p = (parts p = [] \<or> fs w p \<noteq> None)"

definition is_dir :: "world \<Rightarrow> path \<Rightarrow> bool" where
  "is_dir w p = (parts p = [] \<or> fs w p = Some Dir)"

subsection \<open>The OMEGA cube transformer\<close>


text \<open>
  The one field of a collection definition that \<^verbatim>\<open>get_processing_fields\<close>
  reads; \<open>None\<close> is Python's \<^verbatim>\<open>None\<close>.
\<close>

record CollectionDefinition =
  processing_level :: "string option"

text \<open>
  \<^verbatim>\<open>get_processing_fields\<close>. \<^verbatim>\<open>metadata_factory.get_object_type\<close>
  is outside these sources and is a parameter. The \<^verbatim>\<open>definition\<close> argument
  defaults to \<^verbatim>\<open>None\<close>, and reading an attribute of \<^verbatim>\<open>None\<close>
  raises \<^verbatim>\<open>AttributeError\<close>. The returned \<^verbatim>\<open>dict\<close> is an
  association list.
\<close>

definition get_processing_fields ::
  "('m \<Rightarrow> string) \<Rightarrow> 'm \<Rightarrow> CollectionDefinition option \<Rightarrow>
   error + (string \<times> string option) list" where
  "get_processing_fields get_object_type metadata defn =
     (let object_type = get_object_type metadata
      in if object_type = ''collection'' then
           (case defn of
              None \<Rightarrow> Inl AttributeError
            | Some d \<Rightarrow> Inr [(''processing:level'', processing_level d)])
         else if object_type = ''item'' then Inr []
         else Inl (InvalidModelObjectTypeError object_type))"

subsection \<open>File and network operations\<close>

text \<open>
  \<^verbatim>\<open>requests.get(url, params=dict(limit=...))\<close>: the request is recorded
  and the service answers.
\<close>

definition http_get :: "string \<Rightarrow> json \<Rightarrow> world \<Rightarrow> reply \<times> world" where
  "http_get url limit w =
     (service w (length (requests w)) url limit,
      w \<lparr> requests := requests w @ [(url, limit)] \<rparr>)"

text \<open>The ancestors of a path below the root or the current directory, nearest last.\<close>

definition ancestors :: "path \<Rightarrow> path list" where
  "ancestors p = map (\<lambda>k. Path (is_absolute p) (take k (parts p))) [1..<length (parts p)]"

text \<open>\<^verbatim>\<open>Path.mkdir(p, parents=True, exist_ok=True)\<close>.\<close>

definition mkdir_parents :: "path \<Rightarrow> world \<Rightarrow> error + world" where
  "mkdir_parents p w =
     (if is_dir w p then Inr w
      else if exists w p then Inl FileExistsError
      else if list_ex (\<lambda>a. exists w a \<and> \<not> is_dir w a) (ancestors p) then Inl NotADirectoryError
      else Inr (w \<lparr> fs := (\<lambda>q. if q = p \<or> q \<in> set (ancestors p) then Some Dir else fs w q) \<rparr>))"

text \<open>\<^verbatim>\<open>p.mkdir()\<close>, with neither \<^verbatim>\<open>parents\<close> nor \<^verbatim>\<open>exist_ok\<close>.\<close>

definition mkdir :: "path \<Rightarrow> world \<Rightarrow> error + world" where
  "mkdir p w =
     (if exists w p then Inl FileExistsError
      else if is_dir w (parent p) then Inr (w \<lparr> fs := (fs w)(p \<mapsto> Dir) \<rparr>)
      else if exists w (parent p) then Inl NotADirectoryError
      else Inl FileNotFoundError)"

text \<open>
  \<^verbatim>\<open>with open(p, 'w') as f: json.dump(doc, f)\<close>. The file holds the document;
  its serialization to text is not modelled.
\<close>

definition write_json :: "path \<Rightarrow> json \<Rightarrow> world \<Rightarrow> error + world" where
  "write_json p doc w =
     (if is_dir w p then Inl IsADirectoryError
      else if is_dir w (parent p) then Inr (w \<lparr> fs := (fs w)(p \<mapsto> JsonFile doc) \<rparr>)
      else if exists w (parent p) then Inl NotADirectoryError
      else Inl FileNotFoundError)"

text \<open>\<^verbatim>\<open>with open(p, 'r') as f: json.load(f)\<close>.\<close>

definition read_json :: "path \<Rightarrow> world \<Rightarrow> error + json" where
  "read_json p w =
     (if parts p = [] then Inl IsADirectoryError
      else (case fs w p of
              None \<Rightarrow> Inl FileNotFoundError
            | Some Dir \<Rightarrow> Inl IsADirectoryError
            | Some (DataFile d) \<Rightarrow> Inl JSONDecodeError
            | Some (JsonFile j) \<Rightarrow> Inr j))"

subsection \<open>Harvest: \<^verbatim>\<open>download_collection\<close>\<close>

text \<open>
  \<^verbatim>\<open>n_products > max_n_products\<close>: numbers compare, a \<^verbatim>\<open>bool\<close>
  counts as 0 or 1, everything else raises \<^verbatim>\<open>TypeError\<close>.
\<close>

fun greater_than :: "json \<Rightarrow> int \<Rightarrow> error + bool" where
  "greater_than (JNum n) m = Inr (of_int m < float_py n)"
| "greater_than (JBool b) m = Inr (m < (if b then 1 else 0))"
| "greater_than v m = Inl TypeError"

text \<open>
  The first \<^verbatim>\<open>with\<close> block of \<^verbatim>\<open>download_collection\<close>, the count
  probe. Its result is the state of the local variable \<^verbatim>\<open>n_products\<close>
  after the block: \<open>Some n\<close> once assigned, \<open>None\<close> while unbound. Where the
  reply has no \<^verbatim>\<open>total\<close> key, the source builds an exception object and
  drops it (there is no \<^verbatim>\<open>raise\<close>), so the block ends normally with the
  variable unbound.
\<close>

definition query_total :: "string \<Rightarrow> world \<Rightarrow> (error + json option) \<times> world" where
  "query_total psup_url w =
     (case http_get psup_url (JNum (PInt 0)) w of
        (ConnectionFailed, w1) \<Rightarrow> (Inl ConnectionError, w1)
      | (Response ok body, w1) \<Rightarrow>
          if ok then
            (case body of
               None \<Rightarrow> (Inl JSONDecodeError, w1)
             | Some (JObj response) \<Rightarrow>
                 (case map_of response ''total'' of
                    Some n_products \<Rightarrow>
                      (case greater_than n_products 13000 of
                         Inl e \<Rightarrow> (Inl e, w1)
                       | Inr higher \<Rightarrow>
                           (Inr (Some n_products),
                            if higher
                            then print [S ''WARNING: Number of products higher than '',
                                        V (JNum (PInt 13000)), S '': '', V n_products] w1
                            else w1))
                  | None \<Rightarrow> (Inr None, w1))
             | Some other \<Rightarrow> (Inl AttributeError, w1))
          else (Inl (Exception ''Invalid PSUP response.''), w1))"

text \<open>
  The second \<^verbatim>\<open>with\<close> block, the fetch of the records; its result is the
  state of the local variable \<^verbatim>\<open>records\<close>. The missing
  \<^verbatim>\<open>data\<close> key is handled like the missing \<^verbatim>\<open>total\<close> key.
\<close>

definition query_records :: "string \<Rightarrow> json \<Rightarrow> world \<Rightarrow> (error + json option) \<times> world" where
  "query_records psup_url n_products w =
     (case http_get psup_url n_products w of
        (ConnectionFailed, w1) \<Rightarrow> (Inl ConnectionError, w1)
      | (Response ok body, w1) \<Rightarrow>
          if ok then
            (case body of
               None \<Rightarrow> (Inl JSONDecodeError, w1)
             | Some (JObj response) \<Rightarrow>
                 (case map_of response ''data'' of
                    Some records \<Rightarrow> (Inr (Some records), w1)
                  | None \<Rightarrow> (Inr None, w1))
             | Some other \<Rightarrow> (Inl AttributeError, w1))
          else (Inl (Exception ''Invalid PSUP response.''), w1))"

text \<open>The path of the source collection file for an output directory.\<close>

definition source_collection_file_of :: "string \<Rightarrow> path" where
  "source_collection_file_of output_dir =
     (let out_dir = path_of_string output_dir;
          basename = stem out_dir
      in joinpath out_dir (basename @ ''.json''))"

text \<open>
  \<^verbatim>\<open>download_collection\<close>. It returns the path of the file it wrote, or
  \<^verbatim>\<open>None\<close> when the file was already there. The unbound
  \<^verbatim>\<open>n_products\<close> is read when the parameters of the second request are
  built, before that request is sent; the unbound \<^verbatim>\<open>records\<close> is read
  when the document is built, after the output directory has been created.
\<close>

definition download_collection ::
  "string \<Rightarrow> string \<Rightarrow> string \<Rightarrow> string \<Rightarrow> bool \<Rightarrow> world \<Rightarrow> (error + path option) \<times> world" where
  "download_collection collection_id psup_url metadata_schema output_dir overwrite w =
     (let source_collection_file = source_collection_file_of output_dir
      in if exists w source_collection_file \<and> \<not> overwrite then
           (Inr None,
            print [S ''Output source collection file already exists: '',
                   PRepr source_collection_file, S ''.''] w)
         else
           (case query_total psup_url w of
              (Inl e, w1) \<Rightarrow> (Inl e, w1)
            | (Inr None, w1) \<Rightarrow> (Inl (UnboundLocalError ''n_products''), w1)
            | (Inr (Some n_products), w1) \<Rightarrow>
                (case query_records psup_url n_products w1 of
                   (Inl e, w2) \<Rightarrow> (Inl e, w2)
                 | (Inr records, w2) \<Rightarrow>
                     (case mkdir_parents (path_of_string output_dir) w2 of
                        Inl e \<Rightarrow> (Inl e, w2)
                      | Inr w3 \<Rightarrow>
                          (case records of
                             None \<Rightarrow> (Inl (UnboundLocalError ''records''), w3)
                           | Some recs \<Rightarrow>
                               (case write_json source_collection_file
                                       (JObj [(''collection'',
                                               JObj [(''id'', JStr collection_id),
                                                     (''schema_name'', JStr metadata_schema),
                                                     (''n_products'', n_products)]),
                                              (''products'', recs)]) w3 of
                                  Inl e \<Rightarrow> (Inl e, w3)
                                | Inr w4 \<Rightarrow> (Inr (Some source_collection_file), w4)))))))"

subsection \<open>Reading the source collection file\<close>

record PSUP_Collection =
  id_field :: string
  schema_name :: string
  n_products :: int

text \<open>
  \<^verbatim>\<open>read_collection_metadata\<close>. The constructor call
  \<^verbatim>\<open>PSUP_Collection(**collection_dict)\<close> runs the validation of the
  \<^verbatim>\<open>pydantic\<close> library and is a parameter, \<open>PSUP_Collection_new\<close>. When
  it raises, the source prints the exception and the dictionary and returns
  \<^verbatim>\<open>None\<close>.
\<close>

definition read_collection_metadata ::
  "(json \<Rightarrow> error + PSUP_Collection) \<Rightarrow> path \<Rightarrow> world \<Rightarrow>
   (error + PSUP_Collection option) \<times> world" where
  "read_collection_metadata PSUP_Collection_new source_collection_file w =
     (case read_json source_collection_file w of
        Inl e \<Rightarrow> (Inl e, w)
      | Inr (JObj json_dict) \<Rightarrow>
          (case map_of json_dict ''collection'' of
             None \<Rightarrow>
               (Inl (Exception ''Not a valid input PSUP source collection JSON file.''), w)
           | Some collection_dict \<Rightarrow>
               (case PSUP_Collection_new collection_dict of
                  Inr collection_metadata \<Rightarrow> (Inr (Some collection_metadata), w)
                | Inl e \<Rightarrow> (Inr None, print [V collection_dict] (print [E e] w))))
      | Inr other \<Rightarrow> (Inl AttributeError, w))"

text \<open>
  What a \<^verbatim>\<open>for\<close> loop iterates over: the elements of a list, the keys of a
  dictionary, the characters of a string; other values are not iterable.
\<close>

fun iterate :: "json \<Rightarrow> error + json list" where
  "iterate (JList xs) = Inr xs"
| "iterate (JObj kvs) = Inr (map (\<lambda>kv. JStr (fst kv)) kvs)"
| "iterate (JStr s) = Inr (map (\<lambda>c. JStr [c]) s)"
| "iterate v = Inl TypeError"

text \<open>
  The loop of \<^verbatim>\<open>read_products_metadata\<close>, over the records still to parse,
  with the list \<^verbatim>\<open>products\<close> built so far.
  \<^verbatim>\<open>factory.create_metadata_object\<close> is outside these sources and is the
  parameter \<open>create_metadata_object\<close>. At the first record that raises, the source
  prints the exception and the record and returns \<^verbatim>\<open>None\<close>.
\<close>

fun parse_products ::
  "(json \<Rightarrow> string \<Rightarrow> string \<Rightarrow> error + 'p) \<Rightarrow> string \<Rightarrow> json list \<Rightarrow> 'p list \<Rightarrow> world \<Rightarrow>
   'p list option \<times> world" where
  "parse_products create_metadata_object schema [] products w = (Some products, w)"
| "parse_products create_metadata_object schema (product_dict # rest) products w =
     (case create_metadata_object product_dict schema ''item'' of
        Inr product_metadata \<Rightarrow>
          parse_products create_metadata_object schema rest (products @ [product_metadata]) w
      | Inl e \<Rightarrow> (None, print [V product_dict] (print [E e] w)))"

text \<open>
  \<^verbatim>\<open>read_products_metadata\<close>. When \<^verbatim>\<open>read_collection_metadata\<close>
  returned \<^verbatim>\<open>None\<close>, reading its \<^verbatim>\<open>schema_name\<close> raises
  \<^verbatim>\<open>AttributeError\<close>.
\<close>

definition read_products_metadata ::
  "(json \<Rightarrow> error + PSUP_Collection) \<Rightarrow> (json \<Rightarrow> string \<Rightarrow> string \<Rightarrow> error + 'p) \<Rightarrow>
   path \<Rightarrow> world \<Rightarrow> (error + 'p list option) \<times> world" where
  "read_products_metadata PSUP_Collection_new create_metadata_object source_collection_file w =
     (case read_collection_metadata PSUP_Collection_new source_collection_file w of
        (Inl e, w1) \<Rightarrow> (Inl e, w1)
      | (Inr None, w1) \<Rightarrow> (Inl AttributeError, w1)
      | (Inr (Some collection_metadata), w1) \<Rightarrow>
          (let schema = schema_name collection_metadata;
               w2 = print [S ''>>'', S schema] w1
           in case read_json source_collection_file w2 of
                Inl e \<Rightarrow> (Inl e, w2)
              | Inr (JObj json_dict) \<Rightarrow>
                  (case map_of json_dict ''products'' of
                     None \<Rightarrow>
                       (Inl (Exception ''Not a valid input PSUP source collection JSON file.''),
                        w2)
                   | Some products_dicts \<Rightarrow>
                       (case iterate products_dicts of
                          Inl e \<Rightarrow> (Inl e, w2)
                        | Inr dicts \<Rightarrow>
                            (case parse_products create_metadata_object schema dicts [] w2 of
                               (products, w3) \<Rightarrow> (Inr products, w3))))
              | Inr other \<Rightarrow> (Inl AttributeError, w2)))"

subsection \<open>Asset download: \<^verbatim>\<open>download_data_files\<close>\<close>

text \<open>
  The loop of \<^verbatim>\<open>download_data_files\<close> over the products.
  \<^verbatim>\<open>get_download_url\<close> is a method of the typed record and is a parameter.
  In the source the call \<^verbatim>\<open>urlretrieve(url, product_path)\<close> is commented
  out: the body of the \<^verbatim>\<open>try\<close> is \<^verbatim>\<open>print('DONE')\<close> alone, which
  does not raise, so the \<^verbatim>\<open>except\<close> branch is never taken and no request
  is sent.
\<close>

fun download_loop ::
  "('p \<Rightarrow> string) \<Rightarrow> path \<Rightarrow> bool \<Rightarrow> 'p list \<Rightarrow> world \<Rightarrow> (error + unit) \<times> world" where
  "download_loop get_download_url source_collection_file overwrite [] w = (Inr (), w)"
| "download_loop get_download_url source_collection_file overwrite (product_metadata # rest) w =
     (let url = get_download_url product_metadata;
          product_fname = last (split_on (CHR ''/'') url);
          data_dir = joinpath (parent source_collection_file) ''data''
      in case (if \<not> exists w data_dir then mkdir data_dir w else Inr w) of
           Inl e \<Rightarrow> (Inl e, w)
         | Inr w1 \<Rightarrow>
             (let w2 = print [S ''Downloading '', S product_fname, S '' ...''] w1;
                  product_path = joinpath data_dir product_fname
              in download_loop get_download_url source_collection_file overwrite rest
                   (if \<not> exists w2 product_path \<or> overwrite
                    then print [S ''DONE''] w2
                    else print [S ''EXISTS''] w2)))"

text \<open>
  \<^verbatim>\<open>download_data_files\<close>: at most \<^verbatim>\<open>MAX_N_PRODUCTS = 10\<close>
  products are processed. An empty list and \<^verbatim>\<open>None\<close> are both falsy.
\<close>

definition download_data_files ::
  "(json \<Rightarrow> error + PSUP_Collection) \<Rightarrow> (json \<Rightarrow> string \<Rightarrow> string \<Rightarrow> error + 'p) \<Rightarrow>
   ('p \<Rightarrow> string) \<Rightarrow> path \<Rightarrow> bool \<Rightarrow> world \<Rightarrow> (error + unit) \<times> world" where
  "download_data_files PSUP_Collection_new create_metadata_object get_download_url
       source_collection_file overwrite w =
     (case read_products_metadata PSUP_Collection_new create_metadata_object
             source_collection_file w of
        (Inl e, w1) \<Rightarrow> (Inl e, w1)
      | (Inr products, w1) \<Rightarrow>
          (let none_found =
                 (Inr (),
                  print [S ''No products found in '', PRepr source_collection_file, S ''.''] w1)
           in case products of
                None \<Rightarrow> none_found
              | Some ps \<Rightarrow>
                  if ps = [] then none_found
                  else download_loop get_download_url source_collection_file overwrite
                         (take 10 ps) w1))"

subsection \<open>Example worlds\<close>

text \<open>A service whose replies are well-formed JSON objects without a \<open>total\<close> key.\<close>

definition psup_without_total :: world where
  "psup_without_total =
     \<lparr> fs = Map.empty,
       service = (\<lambda>k url limit. Response True (Some (JObj [(''count'', JNum (PInt 2))]))),
       requests = [],
       stdout = [] \<rparr>"

text \<open>A service whose replies carry a \<open>total\<close> of 2 and no \<open>data\<close> key.\<close>

definition psup_without_data :: world where
  "psup_without_data =
     \<lparr> fs = Map.empty,
       service = (\<lambda>k url limit. Response True (Some (JObj [(''total'', JNum (PInt 2))]))),
       requests = [],
       stdout = [] \<rparr>"

text \<open>A world in which the collection has been harvested into \<^verbatim>\<open>source/\<close>.\<close>

definition harvested :: world where
  "harvested =
     \<lparr> fs = [Path False [''source''] \<mapsto> Dir,
             Path False [''source'', ''source.json''] \<mapsto> JsonFile (JObj [])],
       service = (\<lambda>k url limit. ConnectionFailed),
       requests = [],
       stdout = [] \<rparr>"



text \<open>
  Instances of the parameters for the examples: a constructor of \<open>PSUP_Collection\<close>
  that accepts exactly a string, a string and an integer, and a schema whose typed
  record is the download URL of the raw record.
\<close>

definition strict_collection :: "json \<Rightarrow> error + PSUP_Collection" where
  "strict_collection d =
     (case d of
        JObj kvs \<Rightarrow>
          (case (map_of kvs ''id'', map_of kvs ''schema_name'', map_of kvs ''n_products'') of
             (Some (JStr i), Some (JStr s), Some (JNum (PInt n))) \<Rightarrow>
               Inr \<lparr> id_field = i, schema_name = s, n_products = n \<rparr>
           | other \<Rightarrow> Inl (External ''validation error''))
      | other \<Rightarrow> Inl TypeError)"

definition url_record :: "json \<Rightarrow> string \<Rightarrow> string \<Rightarrow> error + string" where
  "url_record d schema object_type =
     (case d of
        JObj kvs \<Rightarrow>
          (case map_of kvs ''download_nc'' of
             Some (JStr u) \<Rightarrow> Inr u
           | other \<Rightarrow> Inl (External ''field required: download_nc''))
      | other \<Rightarrow> Inl TypeError)"

text \<open>A harvested collection whose second raw record has no download URL.\<close>

definition two_products_second_invalid :: world where
  "two_products_second_invalid =
     \<lparr> fs = [Path False [''source''] \<mapsto> Dir,
             Path False [''source'', ''source.json''] \<mapsto>
               JsonFile (JObj [(''collection'',
                                JObj [(''id'', JStr ''omega_cube''),
                                      (''schema_name'', JStr ''OMEGA_CUBE''),
                                      (''n_products'', JNum (PInt 2))]),
                               (''products'',
                                JList [JObj [(''download_nc'', JStr ''http://psup/a.nc'')],
                                       JObj [(''orbit'', JNum (PInt 18))]])])],
       service = (\<lambda>k url limit. ConnectionFailed),
       requests = [],
       stdout = [] \<rparr>"

text \<open>
  A harvested collection of one product; in \<open>one_product_downloaded\<close> its data file
  is in the data directory.
\<close>

definition one_product :: world where
  "one_product =
     \<lparr> fs = [Path False [''source''] \<mapsto> Dir,
             Path False [''source'', ''source.json''] \<mapsto>
               JsonFile (JObj [(''collection'',
                                JObj [(''id'', JStr ''omega_cube''),
                                      (''schema_name'', JStr ''OMEGA_CUBE''),
                                      (''n_products'', JNum (PInt 1))]),
                               (''products'',
                                JList [JObj [(''download_nc'',
                                              JStr ''http://psup/omega/example.nc'')]])])],
       service = (\<lambda>k url limit. ConnectionFailed),
       requests = [],
       stdout = [] \<rparr>"



subsection \<open>The progress lines of the download loop\<close>


section \<open>Properties\<close>

subsection \<open>Bounding box\<close>








text \<open>
  C10: the latitudes pass through \<open>get_bbox\<close> unchanged. The second and the fourth
  element of the bounding box are the record's minimum and maximum latitude, converted
  to float and nothing else; the list has exactly four elements.
\<close>

theorem C10_bbox_latitudes_unchanged:
  "get_bbox metadata ! 1 = float_py (minimum_latitude metadata) \<and>
   get_bbox metadata ! 3 = float_py (maximum_latitude metadata) \<and>
   length (get_bbox metadata) = 4"
  by (simp add: get_bbox_def)

subsection \<open>Extension accessors\<close>

text \<open>
  C3, as stated: \<open>get_processing_fields\<close> raises the invalid-object-type error for
  the object type \<open>item\<close>. It does not: the \<^verbatim>\<open>elif\<close> branch for
  \<open>item\<close> returns the empty mapping.
\<close>

theorem C3_processing_fields_item_counterexample:
  "get_processing_fields (\<lambda>m::unit. ''item'') ()
     (Some \<lparr> processing_level = Some ''L2'' \<rparr>) = Inr [] \<and>
   get_processing_fields (\<lambda>m::unit. ''item'') ()
     (Some \<lparr> processing_level = Some ''L2'' \<rparr>) \<noteq> Inl (InvalidModelObjectTypeError ''item'')"
  by (simp add: get_processing_fields_def)

text \<open>
  C3, amended: for the object type \<open>item\<close>, \<open>get_processing_fields\<close> returns the
  empty mapping and raises nothing; for \<open>collection\<close> with a definition it returns
  the non-empty mapping with the one key \<open>processing:level\<close>, bound to the
  definition's processing level; for every other object type it raises the
  invalid-object-type error.
\<close>

theorem C3_processing_fields:
  "(got metadata = ''item'' \<longrightarrow>
      get_processing_fields got metadata defn = Inr []) \<and>
   (got metadata = ''collection'' \<longrightarrow>
      get_processing_fields got metadata (Some d)
        = Inr [(''processing:level'', processing_level d)] \<and>
      (\<forall>fields. get_processing_fields got metadata (Some d) = Inr fields \<longrightarrow> fields \<noteq> [])) \<and>
   (got metadata \<noteq> ''item'' \<and> got metadata \<noteq> ''collection'' \<longrightarrow>
      get_processing_fields got metadata defn
        = Inl (InvalidModelObjectTypeError (got metadata)))"
  by (simp add: get_processing_fields_def)

theorem C3_processing_fields_witness:
  "get_processing_fields (\<lambda>m::unit. ''item'') () None = Inr [] \<and>
   get_processing_fields (\<lambda>m::unit. ''collection'') () (Some \<lparr> processing_level = Some ''L2'' \<rparr>)
     = Inr [(''processing:level'', Some ''L2'')] \<and>
   get_processing_fields (\<lambda>m::unit. ''catalog'') () None
     = Inl (InvalidModelObjectTypeError ''catalog'')"
  using C3_processing_fields [of "\<lambda>m::unit. ''item''" "()" None]
        C3_processing_fields [of "\<lambda>m::unit. ''collection''" "()" _ "\<lparr> processing_level = Some ''L2'' \<rparr>"]
        C3_processing_fields [of "\<lambda>m::unit. ''catalog''" "()" None]
  by simp

subsection \<open>Geometry\<close>




subsection \<open>Harvest\<close>

lemma source_collection_file_of_source:
  "source_collection_file_of ''source'' = Path False [''source'', ''source.json'']"
  by (simp add: source_collection_file_of_def path_of_string_def stem_def name_def joinpath_def)

text \<open>
  C1: a reply without the expected field should make \<open>download_collection\<close> fail
  with the malformed-response error. The code does fail, but not with that error: for a
  count reply that is a JSON object without \<open>total\<close>, the exception object is built
  and never raised, and the function stops with \<open>UnboundLocalError\<close> on
  \<open>n_products\<close> when it builds the second request. One request has been sent and
  nothing has been written.
\<close>

theorem C1_missing_total_raises_unbound_local:
  "download_collection ''omega_cube'' ''http://psup/omega'' ''OMEGA_CUBE'' ''source'' False
     psup_without_total
   = (Inl (UnboundLocalError ''n_products''),
      psup_without_total \<lparr> requests := [(''http://psup/omega'', JNum (PInt 0))] \<rparr>)"
  by (simp add: download_collection_def source_collection_file_of_source exists_def
      query_total_def http_get_def psup_without_total_def)

text \<open>
  The two other failure paths of the harvest. A reply without the \<open>data\<close> key ends
  the same way, on the variable \<open>records\<close>, after both requests and after the
  output directory has been created; no file is written. A reply that is not
  \<^verbatim>\<open>ok\<close> is the one case in which the exception is raised.
\<close>

lemma download_collection_missing_data:
  "download_collection ''omega_cube'' ''http://psup/omega'' ''OMEGA_CUBE'' ''source'' False
     psup_without_data
   = (Inl (UnboundLocalError ''records''),
      psup_without_data
        \<lparr> fs := (\<lambda>q. if q = Path False [''source''] then Some Dir else None),
          requests := [(''http://psup/omega'', JNum (PInt 0)),
                       (''http://psup/omega'', JNum (PInt 2))] \<rparr>)"
proof -
  have p: "path_of_string ''source'' = Path False [''source'']"
    by (simp add: path_of_string_def)
  show ?thesis
    by (simp add: download_collection_def source_collection_file_of_source exists_def
        is_dir_def query_total_def query_records_def http_get_def mkdir_parents_def
        ancestors_def p psup_without_data_def cong del: if_weak_cong)
qed

lemma download_collection_request_failed:
  assumes "\<not> exists w (source_collection_file_of output_dir) \<or> overwrite"
      and "service w (length (requests w)) psup_url (JNum (PInt 0)) = Response False body"
  shows "download_collection collection_id psup_url metadata_schema output_dir overwrite w
         = (Inl (Exception ''Invalid PSUP response.''),
            w \<lparr> requests := requests w @ [(psup_url, JNum (PInt 0))] \<rparr>)"
  using assms by (auto simp: download_collection_def query_total_def http_get_def)

text \<open>
  C5: when the source collection file of the output directory exists and
  \<open>overwrite\<close> is false, \<open>download_collection\<close> returns \<^verbatim>\<open>None\<close>,
  prints that the file already exists, and changes nothing else: no request is sent
  and the file system, the file included, is the same.
\<close>

theorem C5_download_collection_existing_is_noop:
  "exists w (source_collection_file_of output_dir) \<Longrightarrow>
   download_collection collection_id psup_url metadata_schema output_dir False w =
     (Inr None,
      w \<lparr> stdout := stdout w @
             [[S ''Output source collection file already exists: '',
               PRepr (source_collection_file_of output_dir), S ''.'']] \<rparr>) \<and>
   fs (snd (download_collection collection_id psup_url metadata_schema output_dir False w)) = fs w \<and>
   requests (snd (download_collection collection_id psup_url metadata_schema output_dir False w))
     = requests w"
  by (simp add: download_collection_def print_def)

theorem C5_download_collection_existing_is_noop_witness:
  "exists harvested (source_collection_file_of ''source'') \<and>
   download_collection ''omega_cube'' ''http://psup/omega'' ''OMEGA_CUBE'' ''source'' False harvested =
     (Inr None,
      harvested \<lparr> stdout :=
             [[S ''Output source collection file already exists: '',
               PRepr (Path False [''source'', ''source.json'']), S ''.'']] \<rparr>) \<and>
   requests (snd (download_collection ''omega_cube'' ''http://psup/omega'' ''OMEGA_CUBE'' ''source''
                    False harvested)) = []"
proof -
  have ex: "exists harvested (source_collection_file_of ''source'')"
    by (simp add: source_collection_file_of_source exists_def harvested_def)
  show ?thesis
    using ex C5_download_collection_existing_is_noop
               [OF ex, of "''omega_cube''" "''http://psup/omega''" "''OMEGA_CUBE''"]
    by (simp add: source_collection_file_of_source harvested_def)
qed

subsection \<open>Reading the products\<close>

lemma parse_products_fails:
  "d \<in> set ds \<Longrightarrow> create d schema ''item'' = Inl e \<Longrightarrow>
   fst (parse_products create schema ds acc w) = None"
proof (induction ds arbitrary: acc)
  case Nil
  then show ?case by simp
next
  case (Cons x xs)
  show ?case
  proof (cases "create x schema ''item''")
    case (Inl e')
    then show ?thesis by simp
  next
    case (Inr p)
    with Cons.prems have "d \<in> set xs" by auto
    with Cons.IH Cons.prems(2) Inr show ?thesis by simp
  qed
qed

lemma parse_products_complete:
  "fst (parse_products create schema ds acc w) = Some ps \<Longrightarrow>
   \<exists>new. ps = acc @ new \<and> map (\<lambda>d. create d schema ''item'') ds = map Inr new"
proof (induction ds arbitrary: acc)
  case Nil
  then show ?case by simp
next
  case (Cons x xs)
  show ?case
  proof (cases "create x schema ''item''")
    case (Inl e')
    with Cons.prems show ?thesis by simp
  next
    case (Inr p)
    with Cons.prems have "fst (parse_products create schema xs (acc @ [p]) w) = Some ps"
      by simp
    from Cons.IH [OF this] obtain new where
      "ps = (acc @ [p]) @ new" "map (\<lambda>d. create d schema ''item'') xs = map Inr new"
      by blast
    with Inr have "ps = acc @ (p # new) \<and>
        map (\<lambda>d. create d schema ''item'') (x # xs) = map Inr (p # new)"
      by simp
    then show ?thesis by blast
  qed
qed

lemma parse_products_all_parsed:
  "parse_products create schema ds [] w = (Some ps, w') \<Longrightarrow>
   map (\<lambda>d. create d schema ''item'') ds = map Inr ps"
  using parse_products_complete [of create schema ds "[]" w ps] by simp

lemma read_json_print [simp]: "read_json f (print l w) = read_json f w"
  by (simp add: read_json_def print_def)

text \<open>
  C6: \<open>read_products_metadata\<close> returns all the records or none. When one raw
  record of the stored list fails to parse against the schema of the collection, the
  function returns \<^verbatim>\<open>None\<close> and no list. And whenever it returns a list, that
  list holds the typed record of every stored raw record, in the stored order: a
  partial list is never returned.
\<close>

theorem C6_read_products_metadata_all_or_nothing:
  "(read_json f w = Inr (JObj doc) \<and>
    map_of doc ''collection'' = Some collection_dict \<and>
    new collection_dict = Inr collection_metadata \<and>
    map_of doc ''products'' = Some (JList dicts) \<and>
    d \<in> set dicts \<and>
    create d (schema_name collection_metadata) ''item'' = Inl e
    \<longrightarrow> fst (read_products_metadata new create f w) = Inr None) \<and>
   (fst (read_products_metadata new create f w) = Inr (Some products)
    \<longrightarrow> (\<exists>doc collection_dict collection_metadata products_dicts dicts.
          read_json f w = Inr (JObj doc) \<and>
          map_of doc ''collection'' = Some collection_dict \<and>
          new collection_dict = Inr collection_metadata \<and>
          map_of doc ''products'' = Some products_dicts \<and>
          iterate products_dicts = Inr dicts \<and>
          map (\<lambda>d. create d (schema_name collection_metadata) ''item'') dicts
            = map Inr products))"
proof (intro conjI impI)
  assume a: "read_json f w = Inr (JObj doc) \<and>
    map_of doc ''collection'' = Some collection_dict \<and>
    new collection_dict = Inr collection_metadata \<and>
    map_of doc ''products'' = Some (JList dicts) \<and>
    d \<in> set dicts \<and>
    create d (schema_name collection_metadata) ''item'' = Inl e"
  then have "fst (parse_products create (schema_name collection_metadata) dicts []
                    (print [S ''>>'', S (schema_name collection_metadata)] w)) = None"
    using parse_products_fails by fastforce
  with a show "fst (read_products_metadata new create f w) = Inr None"
    by (auto simp: read_products_metadata_def read_collection_metadata_def Let_def
        split: prod.splits)
next
  assume a: "fst (read_products_metadata new create f w) = Inr (Some products)"
  then show "\<exists>doc collection_dict collection_metadata products_dicts dicts.
          read_json f w = Inr (JObj doc) \<and>
          map_of doc ''collection'' = Some collection_dict \<and>
          new collection_dict = Inr collection_metadata \<and>
          map_of doc ''products'' = Some products_dicts \<and>
          iterate products_dicts = Inr dicts \<and>
          map (\<lambda>d. create d (schema_name collection_metadata) ''item'') dicts
            = map Inr products"
    by (auto simp: read_products_metadata_def read_collection_metadata_def Let_def
        split: prod.splits sum.splits json.splits option.splits
        dest: parse_products_all_parsed)
qed


theorem C6_read_products_metadata_all_or_nothing_witness:
  "url_record (JObj [(''orbit'', JNum (PInt 18))]) ''OMEGA_CUBE'' ''item''
     = Inl (External ''field required: download_nc'') \<and>
   fst (read_products_metadata strict_collection url_record
          (Path False [''source'', ''source.json'']) two_products_second_invalid) = Inr None"
proof -
  let ?doc = "[(''collection'',
                JObj [(''id'', JStr ''omega_cube''),
                      (''schema_name'', JStr ''OMEGA_CUBE''),
                      (''n_products'', JNum (PInt 2))]),
               (''products'',
                JList [JObj [(''download_nc'', JStr ''http://psup/a.nc'')],
                       JObj [(''orbit'', JNum (PInt 18))]])]"
  let ?cm = "\<lparr> id_field = ''omega_cube'', schema_name = ''OMEGA_CUBE'', n_products = 2 \<rparr>"
  have r: "read_json (Path False [''source'', ''source.json'']) two_products_second_invalid
             = Inr (JObj ?doc)"
    by (simp add: read_json_def two_products_second_invalid_def)
  have c: "strict_collection (JObj [(''id'', JStr ''omega_cube''),
                      (''schema_name'', JStr ''OMEGA_CUBE''),
                      (''n_products'', JNum (PInt 2))]) = Inr ?cm"
    by (simp add: strict_collection_def)
  have bad: "url_record (JObj [(''orbit'', JNum (PInt 18))]) (schema_name ?cm) ''item''
               = Inl (External ''field required: download_nc'')"
    by (simp add: url_record_def)
  show ?thesis
    using r c bad
      C6_read_products_metadata_all_or_nothing
        [of "Path False [''source'', ''source.json'']" two_products_second_invalid ?doc
            "JObj [(''id'', JStr ''omega_cube''),
                      (''schema_name'', JStr ''OMEGA_CUBE''),
                      (''n_products'', JNum (PInt 2))]"
            strict_collection ?cm
            "[JObj [(''download_nc'', JStr ''http://psup/a.nc'')],
              JObj [(''orbit'', JNum (PInt 18))]]"
            "JObj [(''orbit'', JNum (PInt 18))]"
            url_record "External ''field required: download_nc''"]
    by simp
qed

subsection \<open>Asset download\<close>

lemma exists_print [simp]: "exists (print l w) p = exists w p"
  by (simp add: exists_def print_def)

lemma fs_print [simp]: "fs (print l w) = fs w"
  by (simp add: print_def)

lemma requests_print [simp]: "requests (print l w) = requests w"
  by (simp add: print_def)

lemma stdout_print [simp]: "stdout (print l w) = stdout w @ [l]"
  by (simp add: print_def)








text \<open>
  C4: for a product whose local file does not exist, \<open>download_data_files\<close> should
  fetch the file of the download URL into the data directory. It does not. For a
  collection of one product with the URL \<^verbatim>\<open>http://psup/omega/example.nc\<close> and
  no local file, the call creates the data directory, prints the progress line for
  \<^verbatim>\<open>example.nc\<close> and \<^verbatim>\<open>DONE\<close>, sends no request and leaves
  \<^verbatim>\<open>source/data/example.nc\<close> absent.
\<close>

theorem C4_no_file_is_fetched:
  "download_data_files strict_collection url_record (\<lambda>u. u)
     (Path False [''source'', ''source.json'']) False one_product
   = (Inr (),
      one_product
        \<lparr> fs := (fs one_product)(Path False [''source'', ''data''] \<mapsto> Dir),
          stdout := [[S ''>>'', S ''OMEGA_CUBE''],
                     [S ''Downloading '', S ''example.nc'', S '' ...''],
                     [S ''DONE'']] \<rparr>) \<and>
   requests (snd (download_data_files strict_collection url_record (\<lambda>u. u)
                    (Path False [''source'', ''source.json'']) False one_product)) = [] \<and>
   \<not> exists (snd (download_data_files strict_collection url_record (\<lambda>u. u)
                     (Path False [''source'', ''source.json'']) False one_product))
       (Path False [''source'', ''data'', ''example.nc''])"
proof -
  have rd: "read_products_metadata strict_collection url_record
              (Path False [''source'', ''source.json'']) one_product
            = (Inr (Some [''http://psup/omega/example.nc'']),
               print [S ''>>'', S ''OMEGA_CUBE''] one_product)"
    by (simp add: read_products_metadata_def read_collection_metadata_def read_json_def
        one_product_def strict_collection_def url_record_def print_def)
  have run: "download_data_files strict_collection url_record (\<lambda>u. u)
     (Path False [''source'', ''source.json'']) False one_product
   = (Inr (),
      one_product
        \<lparr> fs := (fs one_product)(Path False [''source'', ''data''] \<mapsto> Dir),
          stdout := [[S ''>>'', S ''OMEGA_CUBE''],
                     [S ''Downloading '', S ''example.nc'', S '' ...''],
                     [S ''DONE'']] \<rparr>)"
  proof -
    have "download_data_files strict_collection url_record (\<lambda>u. u)
            (Path False [''source'', ''source.json'']) False one_product
          = download_loop (\<lambda>u. u) (Path False [''source'', ''source.json'']) False
              [''http://psup/omega/example.nc''] (print [S ''>>'', S ''OMEGA_CUBE''] one_product)"
      by (simp add: download_data_files_def rd)
    then show ?thesis
      by (simp add: Let_def exists_def is_dir_def mkdir_def
          parent_def joinpath_def path_of_string_def print_def one_product_def)
  qed
  show ?thesis
    unfolding run by (simp add: exists_def one_product_def)
qed








end
